theory Spec2Isabelle
  imports Main "HOL-Library.Sublist"
begin

section \<open>JavaScript values\<close>

text \<open>
  The transaction record handed to \<open>detectErrorCategory\<close> and
  \<open>buildTransactionContext\<close> of \<open>src/agent.js\<close> is an untyped JavaScript object
  (the HTTP layer passes the parsed JSON body as it is), so its fields are modelled as
  dynamically typed values. An object is the list of its own data properties, the first
  pair for a name being the property. A number is an integer or \<open>NaN\<close>; integers are
  printed in plain decimal, as JavaScript prints those of magnitude below \<open>10^21\<close>. A
  string is a list of characters with codes below 256. Functions are not values of the
  model, so no property of a record is callable.
\<close>

datatype jsval =
    JUndefined
  | JNull
  | JBool bool
  | JNum int
  | JNaN
  | JStr string
  | JArr "jsval list"
  | JObj "(string \<times> jsval) list"

type_synonym obj = "(string \<times> jsval) list"

datatype js_error = TypeError

text \<open>Property access \<open>o.k\<close>: a missing property reads as \<open>undefined\<close> (none of
  the names the code reads is a property of \<open>Object.prototype\<close>).\<close>

definition get :: "obj \<Rightarrow> string \<Rightarrow> jsval" where
  "get ob k = (case map_of ob k of None \<Rightarrow> JUndefined | Some v \<Rightarrow> v)"

text \<open>\<open>ToBoolean\<close>: the falsy values are \<open>undefined\<close>, \<open>null\<close>, \<open>false\<close>, \<open>0\<close>,
  \<open>NaN\<close> and the empty string.\<close>

fun truthy :: "jsval \<Rightarrow> bool" where
  "truthy JUndefined = False"
| "truthy JNull = False"
| "truthy (JBool b) = b"
| "truthy (JNum n) = (n \<noteq> 0)"
| "truthy JNaN = False"
| "truthy (JStr s) = (s \<noteq> [])"
| "truthy (JArr xs) = True"
| "truthy (JObj ps) = True"

text \<open>The operator \<open>a || b\<close>.\<close>

definition or_else :: "jsval \<Rightarrow> jsval \<Rightarrow> jsval" where
  "or_else a b = (if truthy a then a else b)"

subsection \<open>Conversion to string\<close>

fun digits :: "nat \<Rightarrow> string" where
  "digits n =
     (if n < 10 then [''0123456789'' ! n]
      else digits (n div 10) @ [''0123456789'' ! (n mod 10)])"

definition show_int :: "int \<Rightarrow> string" where
  "show_int i = (if i < 0 then CHR ''-'' # digits (nat (- i)) else digits (nat i))"

fun intercalate :: "string \<Rightarrow> string list \<Rightarrow> string" where
  "intercalate sep [] = []"
| "intercalate sep [s] = s"
| "intercalate sep (s # t # ts) = s @ sep @ intercalate sep (t # ts)"

text \<open>
  \<open>ToString\<close> on a value, and the element strings that \<open>Array.prototype.join\<close>
  collects (\<open>undefined\<close> and \<open>null\<close> elements give the empty string). An array converts
  by joining its elements with a comma. An object whose properties are plain data converts
  through \<open>Object.prototype.toString\<close>, unless an own property named \<open>toString\<close> hides
  that method: a data property is not callable, \<open>valueOf\<close> yields no primitive either,
  and the conversion throws a \<open>TypeError\<close>.
\<close>

fun ToString :: "jsval \<Rightarrow> js_error + string"
  and element_strings :: "jsval list \<Rightarrow> js_error + string list" where
  "ToString JUndefined = Inr ''undefined''"
| "ToString JNull = Inr ''null''"
| "ToString (JBool b) = Inr (if b then ''true'' else ''false'')"
| "ToString (JNum n) = Inr (show_int n)"
| "ToString JNaN = Inr ''NaN''"
| "ToString (JStr s) = Inr s"
| "ToString (JArr xs) =
     (case element_strings xs of Inl e \<Rightarrow> Inl e | Inr ss \<Rightarrow> Inr (intercalate '','' ss))"
| "ToString (JObj ps) =
     (if map_of ps ''toString'' = None then Inr ''[object Object]'' else Inl TypeError)"
| "element_strings [] = Inr []"
| "element_strings (x # xs) =
     (case (if x = JUndefined \<or> x = JNull then Inr [] else ToString x) of
        Inl e \<Rightarrow> Inl e
      | Inr s \<Rightarrow> (case element_strings xs of Inl e \<Rightarrow> Inl e | Inr ss \<Rightarrow> Inr (s # ss)))"

text \<open>\<open>xs.join(sep)\<close>.\<close>

definition join :: "jsval list \<Rightarrow> string \<Rightarrow> js_error + string" where
  "join xs sep =
     (case element_strings xs of Inl e \<Rightarrow> Inl e | Inr ss \<Rightarrow> Inr (intercalate sep ss))"

subsection \<open>String operations\<close>

text \<open>\<open>toLowerCase\<close> on characters below 256: the letters A to Z, and the Latin-1
  capitals \<open>0xC0\<close> to \<open>0xDE\<close> except the multiplication sign \<open>0xD7\<close>, move up by 32.\<close>

definition lower_char :: "char \<Rightarrow> char" where
  "lower_char c =
     (let n = (of_char c :: nat)
      in if (65 \<le> n \<and> n \<le> 90) \<or> (192 \<le> n \<and> n \<le> 222 \<and> n \<noteq> 215)
         then char_of (n + 32) else c)"

definition toLowerCase :: "string \<Rightarrow> string" where
  "toLowerCase s = map lower_char s"

fun startsWith :: "string \<Rightarrow> string \<Rightarrow> bool" where
  "startsWith s [] = True"
| "startsWith [] (p # ps) = False"
| "startsWith (c # cs) (p # ps) = (c = p \<and> startsWith cs ps)"

text \<open>\<open>s.includes(p)\<close>: \<open>p\<close> occurs in \<open>s\<close> at some position.\<close>

fun str_includes :: "string \<Rightarrow> string \<Rightarrow> bool" where
  "str_includes [] p = (p = [])"
| "str_includes (c # cs) p = (startsWith (c # cs) p \<or> str_includes cs p)"

section \<open>Error pattern library\<close>

record pattern_entry =
  patterns :: "string list"
  category :: string

definition ERROR_PATTERNS :: "(string \<times> pattern_entry) list" where
  "ERROR_PATTERNS =
    [(''OUT_OF_GAS'',
        \<lparr>patterns = [''out of gas'', ''gas required exceeds allowance'', ''intrinsic gas too low''],
         category = ''Gas Error''\<rparr>),
     (''REVERT_NO_REASON'',
        \<lparr>patterns = [''execution reverted'', ''transaction reverted''],
         category = ''Execution Revert''\<rparr>),
     (''SLIPPAGE'',
        \<lparr>patterns = [''insufficient output amount'', ''excessive input amount'',
                     ''UniswapV2: K'', ''slippage''],
         category = ''Slippage Error''\<rparr>),
     (''ALLOWANCE'',
        \<lparr>patterns = [''allowance'', ''transfer amount exceeds allowance'',
                     ''erc20: insufficient allowance''],
         category = ''Allowance Error''\<rparr>),
     (''BALANCE'',
        \<lparr>patterns = [''insufficient balance'', ''transfer amount exceeds balance'',
                     ''erc20: transfer amount exceeds balance''],
         category = ''Balance Error''\<rparr>),
     (''DEADLINE'',
        \<lparr>patterns = [''transaction too old'', ''expired'', ''deadline''],
         category = ''Deadline Error''\<rparr>),
     (''REENTRANCY'',
        \<lparr>patterns = [''reentrant call'', ''reentrancy guard''],
         category = ''Reentrancy Guard''\<rparr>),
     (''OWNERSHIP'',
        \<lparr>patterns = [''ownable: caller is not the owner'', ''not authorized'',
                     ''access denied'', ''onlyowner''],
         category = ''Access Control Error''\<rparr>),
     (''PAUSED'',
        \<lparr>patterns = [''paused'', ''contract is paused'', ''pausable: paused''],
         category = ''Contract Paused''\<rparr>),
     (''NONCE'',
        \<lparr>patterns = [''nonce too low'', ''nonce too high'',
                     ''replacement transaction underpriced''],
         category = ''Nonce Error''\<rparr>)]"

section \<open>Transaction analyzer\<close>

text \<open>The object \<open>{ key, ...value }\<close> built for a matching entry.\<close>

definition result_of :: "string \<Rightarrow> pattern_entry \<Rightarrow> obj" where
  "result_of k v =
     [(''key'', JStr k),
      (''patterns'', JArr (map JStr (patterns v))),
      (''category'', JStr (category v))]"

definition UNKNOWN :: obj where
  "UNKNOWN = [(''key'', JStr ''UNKNOWN''), (''category'', JStr ''Unknown Error''),
              (''patterns'', JArr [])]"

definition matches :: "string \<Rightarrow> pattern_entry \<Rightarrow> bool" where
  "matches searchStr v = list_ex (\<lambda>p. str_includes searchStr (toLowerCase p)) (patterns v)"

text \<open>The \<open>for\<close> loop over the entries: the first entry that matches returns.\<close>

fun first_match :: "string \<Rightarrow> (string \<times> pattern_entry) list \<Rightarrow> obj" where
  "first_match searchStr [] = UNKNOWN"
| "first_match searchStr ((k, v) # es) =
     (if matches searchStr v then result_of k v else first_match searchStr es)"

definition searchStr :: "obj \<Rightarrow> js_error + string" where
  "searchStr txData =
     (case join [or_else (get txData ''error'') (JStr ''''),
                 or_else (get txData ''revertReason'') (JStr ''''),
                 or_else (get txData ''errorMessage'') (JStr '''')] '' '' of
        Inl e \<Rightarrow> Inl e
      | Inr s \<Rightarrow> Inr (toLowerCase s))"

definition detectErrorCategory :: "obj \<Rightarrow> js_error + obj" where
  "detectErrorCategory txData =
     (case searchStr txData of
        Inl e \<Rightarrow> Inl e
      | Inr s \<Rightarrow> Inr (first_match s ERROR_PATTERNS))"

text \<open>
  \<open>buildTransactionContext\<close> reads the clock only through
  \<open>new Date().toISOString()\<close>; the string it would return is the parameter \<open>now\<close>.
\<close>

definition buildTransactionContext :: "string \<Rightarrow> obj \<Rightarrow> js_error + obj" where
  "buildTransactionContext now txData =
     (case detectErrorCategory txData of
        Inl e \<Rightarrow> Inl e
      | Inr errorCategory \<Rightarrow> Inr
         [(''hash'', or_else (get txData ''hash'') (JStr ''N/A'')),
          (''status'', or_else (get txData ''status'') (JStr ''failed'')),
          (''errorCategory'', JObj errorCategory),
          (''gasUsed'', or_else (get txData ''gasUsed'') (JStr ''N/A'')),
          (''gasLimit'', or_else (get txData ''gasLimit'') (JStr ''N/A'')),
          (''gasPrice'', or_else (get txData ''gasPrice'') (JStr ''N/A'')),
          (''from'', or_else (get txData ''from'') (JStr ''N/A'')),
          (''to'', or_else (get txData ''to'') (JStr ''N/A'')),
          (''value'', or_else (get txData ''value'') (JStr ''0'')),
          (''nonce'', or_else (get txData ''nonce'') (JStr ''N/A'')),
          (''error'', or_else (get txData ''error'') (JStr ''No error message'')),
          (''revertReason'', or_else (get txData ''revertReason'') (JStr ''No revert reason'')),
          (''contractAddress'',
             or_else (or_else (get txData ''contractAddress'') (get txData ''to'')) (JStr ''N/A'')),
          (''contractName'', or_else (get txData ''contractName'') (JStr ''Unknown Contract'')),
          (''functionName'', or_else (get txData ''functionName'') (JStr ''Unknown Function'')),
          (''inputData'', or_else (get txData ''inputData'') (JStr ''N/A'')),
          (''network'', or_else (get txData ''network'') (JStr ''Ethereum Mainnet'')),
          (''timestamp'', or_else (get txData ''timestamp'') (JStr now)),
          (''additionalContext'', or_else (get txData ''additionalContext'') (JObj []))])"

section \<open>Notions used to state the properties\<close>

text \<open>The three fields that carry error text, and the fields of the context record.\<close>

definition text_fields :: "string list" where
  "text_fields = [''error'', ''revertReason'', ''errorMessage'']"

definition canonical_fields :: "string list" where
  "canonical_fields =
     [''hash'', ''status'', ''errorCategory'', ''gasUsed'', ''gasLimit'', ''gasPrice'',
      ''from'', ''to'', ''value'', ''nonce'', ''error'', ''revertReason'', ''contractAddress'',
      ''contractName'', ''functionName'', ''inputData'', ''network'', ''timestamp'',
      ''additionalContext'']"

text \<open>A value converts to a string when \<open>ToString\<close> does not throw.\<close>

definition convertible :: "jsval \<Rightarrow> bool" where
  "convertible v = (case ToString v of Inl e \<Rightarrow> False | Inr s \<Rightarrow> True)"

fun primitive :: "jsval \<Rightarrow> bool" where
  "primitive (JArr xs) = False"
| "primitive (JObj ps) = False"
| "primitive v = True"

text \<open>What a field \<open>v\<close> contributes to the search string: \<open>v || ""\<close> as an element
  of the joined array.\<close>

definition field_text :: "jsval \<Rightarrow> js_error + string" where
  "field_text v = (if truthy v then ToString v else Inr [])"

text \<open>Reading a field of a result that may be an exception.\<close>

definition field_of :: "string \<Rightarrow> js_error + obj \<Rightarrow> js_error + jsval" where
  "field_of k r = (case r of Inl e \<Rightarrow> Inl e | Inr ob \<Rightarrow> Inr (get ob k))"

text \<open>The record without its property \<open>k\<close>.\<close>

definition delete_prop :: "string \<Rightarrow> obj \<Rightarrow> obj" where
  "delete_prop k ob = filter (\<lambda>p. fst p \<noteq> k) ob"

text \<open>\<open>buildTransactionContext\<close> applied to its own output.\<close>

definition normalize_twice :: "string \<Rightarrow> string \<Rightarrow> obj \<Rightarrow> js_error + obj" where
  "normalize_twice now now' txData =
     (case buildTransactionContext now txData of
        Inl e \<Rightarrow> Inl e
      | Inr ctx \<Rightarrow> buildTransactionContext now' ctx)"

text \<open>
  The search string as the specification words it: the three fields, each defaulted to the
  empty string, concatenated in order with nothing in between, lower-cased.
\<close>

fun text_or_empty :: "jsval \<Rightarrow> string" where
  "text_or_empty (JStr s) = s"
| "text_or_empty v = []"

definition spec_searchStr :: "obj \<Rightarrow> string" where
  "spec_searchStr txData =
     toLowerCase (text_or_empty (get txData ''error'')
                  @ text_or_empty (get txData ''revertReason'')
                  @ text_or_empty (get txData ''errorMessage''))"

text \<open>Some substring of some catalog entry occurs in the text \<open>s\<close>.\<close>

definition catalog_hit :: "string \<Rightarrow> bool" where
  "catalog_hit s = list_ex (\<lambda>e. matches s (snd e)) ERROR_PATTERNS"

text \<open>
  The substrings of the catalog as they are searched for, and two checks on a substring
  \<open>p\<close>: that no occurrence of \<open>p\<close> can begin inside the text \<open>pre\<close> when the
  character \<open>c\<close> follows it, and that none can end inside the text \<open>post\<close> when the
  character \<open>c\<close> stands before it.
\<close>

definition lowered_patterns :: "string list" where
  "lowered_patterns = concat (map (\<lambda>e. map toLowerCase (patterns (snd e))) ERROR_PATTERNS)"

definition clear_before :: "string \<Rightarrow> char \<Rightarrow> string \<Rightarrow> bool" where
  "clear_before pre c p =
     (\<not> sublist p pre
      \<and> list_all (\<lambda>k. \<not> (suffix (take k p) pre \<and> p ! k = c)) [0..<length p])"

definition clear_after :: "char \<Rightarrow> string \<Rightarrow> string \<Rightarrow> bool" where
  "clear_after c post p =
     (\<not> sublist p post
      \<and> list_all (\<lambda>k. \<not> (p ! (k - 1) = c \<and> prefix (drop k p) post)) [1..<length p])"

section \<open>Substring search and the loop over the catalog\<close>

lemma startsWith_prefix: "startsWith s p = prefix p s"
  by (induction s p rule: startsWith.induct) auto

lemma str_includes_sublist: "str_includes s p = sublist p s"
  by (induction s) (simp_all add: sublist_Cons_right startsWith_prefix)

lemma matches_iff:
  "matches s v \<longleftrightarrow> (\<exists>p\<in>set (patterns v). sublist (toLowerCase p) s)"
  by (simp add: matches_def list_ex_iff str_includes_sublist)

lemma catalog_hit_iff:
  "catalog_hit s \<longleftrightarrow>
     (\<exists>e\<in>set ERROR_PATTERNS. \<exists>p\<in>set (patterns (snd e)). sublist (toLowerCase p) s)"
  by (simp add: catalog_hit_def list_ex_iff matches_iff)

lemma first_match_none:
  "\<forall>e\<in>set es. \<not> matches s (snd e) \<Longrightarrow> first_match s es = UNKNOWN"
  by (induction es) auto

lemma first_match_some:
  "\<exists>e\<in>set es. matches s (snd e) \<Longrightarrow>
   \<exists>i<length es. first_match s es = result_of (fst (es ! i)) (snd (es ! i))
      \<and> matches s (snd (es ! i)) \<and> (\<forall>j<i. \<not> matches s (snd (es ! j)))"
proof (induction es)
  case Nil
  then show ?case by simp
next
  case (Cons e es)
  obtain k v where e: "e = (k, v)" by (cases e)
  show ?case
  proof (cases "matches s v")
    case True
    then have "first_match s (e # es) = result_of (fst ((e # es) ! 0)) (snd ((e # es) ! 0))
        \<and> matches s (snd ((e # es) ! 0)) \<and> (\<forall>j<0. \<not> matches s (snd ((e # es) ! j)))"
      by (simp add: e)
    then show ?thesis by blast
  next
    case False
    with Cons.prems e have "\<exists>e\<in>set es. matches s (snd e)" by auto
    from Cons.IH [OF this] obtain i where i: "i < length es"
      "first_match s es = result_of (fst (es ! i)) (snd (es ! i))"
      "matches s (snd (es ! i))" "\<forall>j<i. \<not> matches s (snd (es ! j))" by blast
    have "\<forall>j<Suc i. \<not> matches s (snd ((e # es) ! j))"
    proof (intro allI impI)
      fix j assume "j < Suc i"
      then show "\<not> matches s (snd ((e # es) ! j))"
        using False e i(4) by (cases j) auto
    qed
    with i False e have "Suc i < length (e # es)
        \<and> first_match s (e # es) = result_of (fst ((e # es) ! Suc i)) (snd ((e # es) ! Suc i))
        \<and> matches s (snd ((e # es) ! Suc i))
        \<and> (\<forall>j<Suc i. \<not> matches s (snd ((e # es) ! j)))"
      by simp
    then show ?thesis by blast
  qed
qed

lemma catalog_keys:
  "map fst ERROR_PATTERNS =
     [''OUT_OF_GAS'', ''REVERT_NO_REASON'', ''SLIPPAGE'', ''ALLOWANCE'', ''BALANCE'',
      ''DEADLINE'', ''REENTRANCY'', ''OWNERSHIP'', ''PAUSED'', ''NONCE'']"
  by (simp add: ERROR_PATTERNS_def)

lemma detectErrorCategory_searchStr:
  "searchStr txData = Inr s \<Longrightarrow> detectErrorCategory txData = Inr (first_match s ERROR_PATTERNS)"
  by (simp add: detectErrorCategory_def)

section \<open>Classification\<close>

text \<open>
  Claim C1, as amended. The search string is the one \<open>searchStr\<close> builds: the error,
  revert-reason and error-message fields, each replaced by the empty string when falsy,
  converted to strings, joined in that order with a single space, and lower-cased. Whenever
  some catalog substring (lower-cased) occurs in it, \<open>detectErrorCategory\<close> returns the
  key, patterns and category of the first entry, in the catalog order OUT_OF_GAS,
  REVERT_NO_REASON, SLIPPAGE, ALLOWANCE, BALANCE, DEADLINE, REENTRANCY, OWNERSHIP, PAUSED,
  NONCE, one of whose substrings occurs anywhere in the search string.
\<close>

theorem detectErrorCategory_first_match:
  assumes "searchStr txData = Inr s"
    and "\<exists>e\<in>set ERROR_PATTERNS. \<exists>p\<in>set (patterns (snd e)). sublist (toLowerCase p) s"
  shows "map fst ERROR_PATTERNS =
           [''OUT_OF_GAS'', ''REVERT_NO_REASON'', ''SLIPPAGE'', ''ALLOWANCE'', ''BALANCE'',
            ''DEADLINE'', ''REENTRANCY'', ''OWNERSHIP'', ''PAUSED'', ''NONCE'']
       \<and> (\<exists>i<length ERROR_PATTERNS.
            detectErrorCategory txData =
              Inr [(''key'', JStr (fst (ERROR_PATTERNS ! i))),
                   (''patterns'', JArr (map JStr (patterns (snd (ERROR_PATTERNS ! i))))),
                   (''category'', JStr (category (snd (ERROR_PATTERNS ! i))))]
          \<and> (\<exists>p\<in>set (patterns (snd (ERROR_PATTERNS ! i))). sublist (toLowerCase p) s)
          \<and> (\<forall>j<i. \<forall>p\<in>set (patterns (snd (ERROR_PATTERNS ! j))).
                \<not> sublist (toLowerCase p) s))"
proof -
  from assms(2) have "\<exists>e\<in>set ERROR_PATTERNS. matches s (snd e)"
    by (simp add: matches_iff)
  from first_match_some [OF this] obtain i where i: "i < length ERROR_PATTERNS"
    "first_match s ERROR_PATTERNS
       = result_of (fst (ERROR_PATTERNS ! i)) (snd (ERROR_PATTERNS ! i))"
    "matches s (snd (ERROR_PATTERNS ! i))"
    "\<forall>j<i. \<not> matches s (snd (ERROR_PATTERNS ! j))"
    by blast
  have "detectErrorCategory txData =
          Inr [(''key'', JStr (fst (ERROR_PATTERNS ! i))),
               (''patterns'', JArr (map JStr (patterns (snd (ERROR_PATTERNS ! i))))),
               (''category'', JStr (category (snd (ERROR_PATTERNS ! i))))]"
    using detectErrorCategory_searchStr [OF assms(1)] i(2) by (simp add: result_of_def)
  moreover have "\<exists>p\<in>set (patterns (snd (ERROR_PATTERNS ! i))). sublist (toLowerCase p) s"
    using i(3) by (simp add: matches_iff)
  moreover have "\<forall>j<i. \<forall>p\<in>set (patterns (snd (ERROR_PATTERNS ! j))).
      \<not> sublist (toLowerCase p) s"
    using i(4) by (simp add: matches_iff)
  ultimately show ?thesis using i(1) catalog_keys by blast
qed

text \<open>An error text in which both a REVERT_NO_REASON and a PAUSED substring occur.\<close>

theorem detectErrorCategory_first_match_witness:
  "searchStr [(''error'', JStr ''Execution reverted: Pausable: paused'')]
      = Inr ''execution reverted: pausable: paused  ''
   \<and> (\<exists>e\<in>set ERROR_PATTERNS. \<exists>p\<in>set (patterns (snd e)).
         sublist (toLowerCase p) ''execution reverted: pausable: paused  '')
   \<and> (map fst ERROR_PATTERNS =
           [''OUT_OF_GAS'', ''REVERT_NO_REASON'', ''SLIPPAGE'', ''ALLOWANCE'', ''BALANCE'',
            ''DEADLINE'', ''REENTRANCY'', ''OWNERSHIP'', ''PAUSED'', ''NONCE'']
       \<and> (\<exists>i<length ERROR_PATTERNS.
            detectErrorCategory [(''error'', JStr ''Execution reverted: Pausable: paused'')] =
              Inr [(''key'', JStr (fst (ERROR_PATTERNS ! i))),
                   (''patterns'', JArr (map JStr (patterns (snd (ERROR_PATTERNS ! i))))),
                   (''category'', JStr (category (snd (ERROR_PATTERNS ! i))))]
          \<and> (\<exists>p\<in>set (patterns (snd (ERROR_PATTERNS ! i))).
                sublist (toLowerCase p) ''execution reverted: pausable: paused  '')
          \<and> (\<forall>j<i. \<forall>p\<in>set (patterns (snd (ERROR_PATTERNS ! j))).
                \<not> sublist (toLowerCase p) ''execution reverted: pausable: paused  '')))"
proof -
  have h1: "searchStr [(''error'', JStr ''Execution reverted: Pausable: paused'')]
      = Inr ''execution reverted: pausable: paused  ''"
    by code_simp
  have h2: "\<exists>e\<in>set ERROR_PATTERNS. \<exists>p\<in>set (patterns (snd e)).
         sublist (toLowerCase p) ''execution reverted: pausable: paused  ''"
    by code_simp
  show ?thesis
    by (rule conjI [OF h1 conjI [OF h2 detectErrorCategory_first_match [OF h1 h2]]])
qed

text \<open>
  The claim C1 as the specification words it takes the search string to be the plain
  concatenation of the three fields. With the error \<open>pau\<close> and the revert reason \<open>sed\<close>
  that concatenation contains the PAUSED substring \<open>paused\<close>, while the code, which puts a
  space between the fields, finds nothing and returns the UNKNOWN result.
\<close>

theorem concatenation_counterexample:
  "str_includes (spec_searchStr [(''error'', JStr ''pau''), (''revertReason'', JStr ''sed'')])
       (toLowerCase ''paused'')
   \<and> detectErrorCategory [(''error'', JStr ''pau''), (''revertReason'', JStr ''sed'')]
       = Inr [(''key'', JStr ''UNKNOWN''), (''category'', JStr ''Unknown Error''),
              (''patterns'', JArr [])]"
  by code_simp

text \<open>
  Claim C2, as amended. The search string is again the one \<open>searchStr\<close> builds: the
  error, revert-reason and error-message fields, each replaced by the empty string when
  falsy, converted to strings, joined in that order with a single space, and lower-cased.
  When no substring of any catalog entry (lower-cased) occurs in it,
  \<open>detectErrorCategory\<close> returns exactly the result with key \<open>UNKNOWN\<close>, category
  \<open>Unknown Error\<close> and no patterns.
\<close>

theorem detectErrorCategory_unknown:
  assumes "searchStr txData = Inr s"
    and "\<forall>e\<in>set ERROR_PATTERNS. \<forall>p\<in>set (patterns (snd e)). \<not> sublist (toLowerCase p) s"
  shows "detectErrorCategory txData =
           Inr [(''key'', JStr ''UNKNOWN''), (''category'', JStr ''Unknown Error''),
                (''patterns'', JArr [])]"
proof -
  from assms(2) have "\<forall>e\<in>set ERROR_PATTERNS. \<not> matches s (snd e)"
    by (simp add: matches_iff)
  then have "first_match s ERROR_PATTERNS = UNKNOWN"
    by (rule first_match_none)
  with detectErrorCategory_searchStr [OF assms(1)] show ?thesis
    by (simp add: UNKNOWN_def)
qed

theorem detectErrorCategory_unknown_witness:
  "searchStr [(''revertReason'', JStr ''VL_COLLATERAL_CANNOT_COVER_NEW_BORROW'')]
      = Inr '' vl_collateral_cannot_cover_new_borrow ''
   \<and> \<not> (\<exists>e\<in>set ERROR_PATTERNS. \<exists>p\<in>set (patterns (snd e)).
         sublist (toLowerCase p) '' vl_collateral_cannot_cover_new_borrow '')
   \<and> detectErrorCategory [(''revertReason'', JStr ''VL_COLLATERAL_CANNOT_COVER_NEW_BORROW'')]
       = Inr [(''key'', JStr ''UNKNOWN''), (''category'', JStr ''Unknown Error''),
              (''patterns'', JArr [])]"
proof -
  have h1: "searchStr [(''revertReason'', JStr ''VL_COLLATERAL_CANNOT_COVER_NEW_BORROW'')]
      = Inr '' vl_collateral_cannot_cover_new_borrow ''"
    by code_simp
  have h2: "\<forall>e\<in>set ERROR_PATTERNS. \<forall>p\<in>set (patterns (snd e)).
         \<not> sublist (toLowerCase p) '' vl_collateral_cannot_cover_new_borrow ''"
    by code_simp
  from h2 have h3: "\<not> (\<exists>e\<in>set ERROR_PATTERNS. \<exists>p\<in>set (patterns (snd e)).
         sublist (toLowerCase p) '' vl_collateral_cannot_cover_new_borrow '')"
    by blast
  show ?thesis
    by (rule conjI [OF h1 conjI [OF h3 detectErrorCategory_unknown [OF h1 h2]]])
qed

text \<open>
  The claim C2 as worded, with the search string the plain concatenation of the three
  fields, fails. For the error \<open>out of\<close> and the revert reason \<open>gas\<close> the
  concatenation is \<open>out ofgas\<close>, in which no catalog substring occurs, while the code,
  which puts a space between the fields, finds \<open>out of gas\<close> and returns the
  OUT_OF_GAS entry instead of the UNKNOWN result.
\<close>

theorem unknown_concatenation_counterexample:
  "spec_searchStr [(''error'', JStr ''out of''), (''revertReason'', JStr ''gas'')] = ''out ofgas''
   \<and> \<not> catalog_hit
         (spec_searchStr [(''error'', JStr ''out of''), (''revertReason'', JStr ''gas'')])
   \<and> detectErrorCategory [(''error'', JStr ''out of''), (''revertReason'', JStr ''gas'')]
       = Inr [(''key'', JStr ''OUT_OF_GAS''),
              (''patterns'', JArr [JStr ''out of gas'', JStr ''gas required exceeds allowance'',
                                   JStr ''intrinsic gas too low'']),
              (''category'', JStr ''Gas Error'')]"
  by code_simp

text \<open>
  Claim C7. \<open>detectErrorCategory\<close> reads only the error, revert-reason and error-message
  fields: two records that agree on these three get the same result, whatever their other
  fields hold. (The result is a function of the record, so equal inputs give equal results.)
\<close>

theorem detectErrorCategory_reads_text_fields:
  assumes "get a ''error'' = get b ''error''"
    and "get a ''revertReason'' = get b ''revertReason''"
    and "get a ''errorMessage'' = get b ''errorMessage''"
  shows "detectErrorCategory a = detectErrorCategory b"
  using assms by (simp add: detectErrorCategory_def searchStr_def)

theorem detectErrorCategory_reads_text_fields_witness:
  "detectErrorCategory [(''error'', JStr ''out of gas''), (''gasLimit'', JStr ''21000'')]
     = detectErrorCategory [(''hash'', JStr ''0xabc''), (''error'', JStr ''out of gas''),
                            (''toString'', JNull)]"
proof -
  have "get [(''error'', JStr ''out of gas''), (''gasLimit'', JStr ''21000'')] k
      = get [(''hash'', JStr ''0xabc''), (''error'', JStr ''out of gas''),
             (''toString'', JNull)] k"
    if "k \<in> set text_fields" for k
    using that by (auto simp: text_fields_def get_def)
  then show ?thesis
    by (intro detectErrorCategory_reads_text_fields) (simp_all add: text_fields_def)
qed

text \<open>
  Claim C9. The three fields are joined with a single space, so a catalog substring with a
  space in it can match across two fields: neither \<open>out of\<close> nor \<open>gas\<close> contains a
  catalog substring, yet the record with error \<open>out of\<close> and revert reason \<open>gas\<close> is
  classified as OUT_OF_GAS, not as UNKNOWN.
\<close>

theorem match_across_fields:
  "\<not> list_ex (\<lambda>e. matches (toLowerCase ''out of'') (snd e)) ERROR_PATTERNS
   \<and> \<not> list_ex (\<lambda>e. matches (toLowerCase ''gas'') (snd e)) ERROR_PATTERNS
   \<and> detectErrorCategory [(''error'', JStr ''out of''), (''revertReason'', JStr ''gas'')]
       = Inr [(''key'', JStr ''OUT_OF_GAS''),
              (''patterns'', JArr [JStr ''out of gas'', JStr ''gas required exceeds allowance'',
                                   JStr ''intrinsic gas too low'']),
              (''category'', JStr ''Gas Error'')]"
  by code_simp

subsection \<open>Fields that are not strings\<close>

lemma element_text:
  "(if or_else v (JStr []) = JUndefined \<or> or_else v (JStr []) = JNull then Inr []
    else ToString (or_else v (JStr []))) = field_text v"
  by (cases v) (auto simp: or_else_def field_text_def)

lemma searchStr_field_text:
  "searchStr txData =
     (case field_text (get txData ''error'') of
        Inl x \<Rightarrow> Inl x
      | Inr a \<Rightarrow>
         (case field_text (get txData ''revertReason'') of
            Inl x \<Rightarrow> Inl x
          | Inr b \<Rightarrow>
             (case field_text (get txData ''errorMessage'') of
                Inl x \<Rightarrow> Inl x
              | Inr c \<Rightarrow> Inr (toLowerCase (a @ '' '' @ b @ '' '' @ c)))))"
  by (simp add: searchStr_def join_def element_text split: sum.splits)

lemma primitive_convertible: "primitive v \<Longrightarrow> convertible v"
  by (cases v) (simp_all add: convertible_def)

lemma falsy_primitive: "\<not> truthy v \<Longrightarrow> primitive v"
  by (cases v) simp_all

lemma convertible_field_text: "convertible v \<Longrightarrow> \<exists>s. field_text v = Inr s"
  by (auto simp: convertible_def field_text_def split: sum.splits)

lemma field_text_convertible:
  assumes "field_text v = Inr s"
  shows "convertible v"
proof (cases "truthy v")
  case True
  with assms show ?thesis by (simp add: convertible_def field_text_def)
next
  case False
  then show ?thesis by (intro primitive_convertible falsy_primitive)
qed

lemma searchStr_total:
  assumes "list_all (\<lambda>k. convertible (get txData k)) text_fields"
  shows "\<exists>a b c. field_text (get txData ''error'') = Inr a
           \<and> field_text (get txData ''revertReason'') = Inr b
           \<and> field_text (get txData ''errorMessage'') = Inr c
           \<and> searchStr txData = Inr (toLowerCase (a @ '' '' @ b @ '' '' @ c))"
proof -
  from assms have c: "convertible (get txData ''error'')"
    "convertible (get txData ''revertReason'')" "convertible (get txData ''errorMessage'')"
    by (simp_all add: text_fields_def)
  obtain a where a: "field_text (get txData ''error'') = Inr a"
    using convertible_field_text [OF c(1)] by blast
  obtain b where b: "field_text (get txData ''revertReason'') = Inr b"
    using convertible_field_text [OF c(2)] by blast
  obtain c where c: "field_text (get txData ''errorMessage'') = Inr c"
    using convertible_field_text [OF c(3)] by blast
  have "searchStr txData = Inr (toLowerCase (a @ '' '' @ b @ '' '' @ c))"
    by (simp add: searchStr_field_text a b c)
  with a b c show ?thesis by blast
qed

lemma searchStr_Inr_convertible:
  assumes "searchStr txData = Inr s"
  shows "list_all (\<lambda>k. convertible (get txData k)) text_fields"
proof -
  from assms obtain a b c where "field_text (get txData ''error'') = Inr a"
    "field_text (get txData ''revertReason'') = Inr b"
    "field_text (get txData ''errorMessage'') = Inr c"
    by (auto simp: searchStr_field_text split: sum.splits)
  then show ?thesis
    by (simp add: text_fields_def field_text_convertible)
qed

lemma map_of_delete_prop:
  "map_of (delete_prop k ob) k' = (if k' = k then None else map_of ob k')"
  by (induction ob) (auto simp: delete_prop_def)

lemma get_delete_prop:
  "get (delete_prop k ob) k' = (if k' = k then JUndefined else get ob k')"
  by (simp add: get_def map_of_delete_prop)

lemma field_text_falsy: "\<not> truthy v \<Longrightarrow> field_text v = field_text JUndefined"
  by (simp add: field_text_def)

lemma searchStr_cong:
  assumes "field_text (get a ''error'') = field_text (get b ''error'')"
    and "field_text (get a ''revertReason'') = field_text (get b ''revertReason'')"
    and "field_text (get a ''errorMessage'') = field_text (get b ''errorMessage'')"
  shows "searchStr a = searchStr b"
  by (simp add: searchStr_field_text assms cong: sum.case_cong)

lemma searchStr_delete_falsy:
  assumes "\<not> truthy (get txData k)"
  shows "searchStr (delete_prop k txData) = searchStr txData"
proof -
  have "field_text (get (delete_prop k txData) k') = field_text (get txData k')" for k'
    using field_text_falsy [OF assms] by (cases "k' = k") (simp_all add: get_delete_prop)
  then show ?thesis by (intro searchStr_cong)
qed

text \<open>
  Claim C5, as amended. For every input record whose error, revert-reason and
  error-message fields convert to strings, as every primitive value (undefined, null, a
  boolean, a number, a string) does, \<open>detectErrorCategory\<close> raises no exception. A falsy
  value in one of the three fields (undefined, null, false, 0, NaN, the empty string) is
  treated as absent: the result is that of the record without the field. The search string
  is made of what the three fields convert to, so a truthy value that is not a string takes
  part in the search through its string form.
\<close>

theorem detectErrorCategory_convertible:
  assumes "list_all (\<lambda>k. convertible (get txData k)) text_fields"
  shows "(\<exists>r. detectErrorCategory txData = Inr r)
       \<and> (\<forall>k\<in>set text_fields. \<not> truthy (get txData k) \<longrightarrow>
             detectErrorCategory (delete_prop k txData) = detectErrorCategory txData)
       \<and> (\<exists>a b c. field_text (get txData ''error'') = Inr a
             \<and> field_text (get txData ''revertReason'') = Inr b
             \<and> field_text (get txData ''errorMessage'') = Inr c
             \<and> searchStr txData = Inr (toLowerCase (a @ '' '' @ b @ '' '' @ c)))
       \<and> (\<forall>v. primitive v \<longrightarrow> convertible v)"
proof -
  note total = searchStr_total [OF assms]
  then obtain s where "searchStr txData = Inr s" by blast
  then have "\<exists>r. detectErrorCategory txData = Inr r"
    by (simp add: detectErrorCategory_def)
  moreover have "\<forall>k\<in>set text_fields. \<not> truthy (get txData k) \<longrightarrow>
             detectErrorCategory (delete_prop k txData) = detectErrorCategory txData"
    by (simp add: detectErrorCategory_def searchStr_delete_falsy)
  ultimately show ?thesis using total primitive_convertible by blast
qed

theorem detectErrorCategory_convertible_witness:
  "(\<exists>r. detectErrorCategory
          [(''error'', JNum 0), (''revertReason'', JStr ''Pausable: paused''),
           (''errorMessage'', JNull)] = Inr r)
   \<and> detectErrorCategory (delete_prop ''error''
          [(''error'', JNum 0), (''revertReason'', JStr ''Pausable: paused''),
           (''errorMessage'', JNull)])
     = detectErrorCategory
          [(''error'', JNum 0), (''revertReason'', JStr ''Pausable: paused''),
           (''errorMessage'', JNull)]"
proof -
  have h: "list_all (\<lambda>k. convertible (get
          [(''error'', JNum 0), (''revertReason'', JStr ''Pausable: paused''),
           (''errorMessage'', JNull)] k)) text_fields"
    by code_simp
  have f: "\<not> truthy (get [(''error'', JNum 0), (''revertReason'', JStr ''Pausable: paused''),
           (''errorMessage'', JNull)] ''error'')"
    by (simp add: get_def)
  have m: "''error'' \<in> set text_fields"
    by (simp add: text_fields_def)
  from detectErrorCategory_convertible [OF h] f m show ?thesis by blast
qed

text \<open>
  The claim C5 as worded fails twice. An array is not a string, yet the error
  \<open>["paused"]\<close> is not treated as absent: it converts to \<open>paused\<close> and the record is
  classified as PAUSED, where the empty record is UNKNOWN. And an object with an own
  property \<open>toString\<close> that is not a function cannot be converted: the classification
  throws a \<open>TypeError\<close>.
\<close>

theorem non_string_counterexample:
  "field_of ''key'' (detectErrorCategory [(''error'', JArr [JStr ''paused''])])
      = Inr (JStr ''PAUSED'')
   \<and> field_of ''key'' (detectErrorCategory []) = Inr (JStr ''UNKNOWN'')
   \<and> detectErrorCategory [(''revertReason'', JObj [(''toString'', JNull)])] = Inl TypeError"
  by code_simp

section \<open>Normalization\<close>

lemma build_succeeds:
  "detectErrorCategory txData = Inr cat \<Longrightarrow> \<exists>ctx. buildTransactionContext now txData = Inr ctx"
  by (simp add: buildTransactionContext_def)

text \<open>
  Claim C4. The \<open>errorCategory\<close> field of the record \<open>buildTransactionContext\<close>
  returns is the result of \<open>detectErrorCategory\<close> on the same input record (and where
  the classification throws, so does the normalization).
\<close>

theorem errorCategory_is_classification:
  "field_of ''errorCategory'' (buildTransactionContext now txData)
     = (case detectErrorCategory txData of Inl e \<Rightarrow> Inl e | Inr cat \<Rightarrow> Inr (JObj cat))"
  by (simp add: field_of_def buildTransactionContext_def get_def split: sum.splits)

theorem errorCategory_is_classification_witness:
  "field_of ''errorCategory''
      (buildTransactionContext ''2026-11-03T00:00:00.000Z''
         [(''error'', JStr ''out of gas''), (''gasLimit'', JStr ''21000'')])
     = Inr (JObj [(''key'', JStr ''OUT_OF_GAS''),
              (''patterns'', JArr [JStr ''out of gas'', JStr ''gas required exceeds allowance'',
                                   JStr ''intrinsic gas too low'']),
              (''category'', JStr ''Gas Error'')])"
proof -
  have "detectErrorCategory [(''error'', JStr ''out of gas''), (''gasLimit'', JStr ''21000'')]
     = Inr [(''key'', JStr ''OUT_OF_GAS''),
              (''patterns'', JArr [JStr ''out of gas'', JStr ''gas required exceeds allowance'',
                                   JStr ''intrinsic gas too low'']),
              (''category'', JStr ''Gas Error'')]"
    by code_simp
  then show ?thesis
    using errorCategory_is_classification [of "''2026-11-03T00:00:00.000Z''"
        "[(''error'', JStr ''out of gas''), (''gasLimit'', JStr ''21000'')]"]
    by simp
qed

lemma example4_category:
  "detectErrorCategory
     [(''to'', JStr ''0xRouter''), (''error'', JStr ''ERC20: transfer amount exceeds allowance'')]
   = Inr [(''key'', JStr ''ALLOWANCE''),
          (''patterns'', JArr [JStr ''allowance'', JStr ''transfer amount exceeds allowance'',
                               JStr ''erc20: insufficient allowance'']),
          (''category'', JStr ''Allowance Error'')]"
  by code_simp

text \<open>
  Claim C8. The \<open>contractAddress\<close> field of the result is the input's
  \<open>contractAddress\<close> when that is truthy, otherwise the input's \<open>to\<close> when that is
  truthy, otherwise \<open>N/A\<close>. For the record with \<open>to\<close> \<open>0xRouter\<close> and error
  \<open>ERC20: transfer amount exceeds allowance\<close> the contract address is \<open>0xRouter\<close>
  and the classification has key \<open>ALLOWANCE\<close> and category \<open>Allowance Error\<close>.
\<close>

theorem contractAddress_fallback:
  assumes "buildTransactionContext now txData = Inr ctx"
  shows "get ctx ''contractAddress'' =
           (if truthy (get txData ''contractAddress'') then get txData ''contractAddress''
            else if truthy (get txData ''to'') then get txData ''to''
            else JStr ''N/A'')
       \<and> field_of ''contractAddress''
            (buildTransactionContext now
               [(''to'', JStr ''0xRouter''),
                (''error'', JStr ''ERC20: transfer amount exceeds allowance'')])
           = Inr (JStr ''0xRouter'')
       \<and> field_of ''key''
            (detectErrorCategory
               [(''to'', JStr ''0xRouter''),
                (''error'', JStr ''ERC20: transfer amount exceeds allowance'')])
           = Inr (JStr ''ALLOWANCE'')
       \<and> field_of ''category''
            (detectErrorCategory
               [(''to'', JStr ''0xRouter''),
                (''error'', JStr ''ERC20: transfer amount exceeds allowance'')])
           = Inr (JStr ''Allowance Error'')"
proof -
  have "get ctx ''contractAddress'' =
           (if truthy (get txData ''contractAddress'') then get txData ''contractAddress''
            else if truthy (get txData ''to'') then get txData ''to''
            else JStr ''N/A'')"
    using assms
    by (auto simp: buildTransactionContext_def get_def or_else_def split: sum.splits)
  moreover have "field_of ''contractAddress''
            (buildTransactionContext now
               [(''to'', JStr ''0xRouter''),
                (''error'', JStr ''ERC20: transfer amount exceeds allowance'')])
           = Inr (JStr ''0xRouter'')"
    by (simp add: buildTransactionContext_def example4_category field_of_def get_def
        or_else_def)
  moreover have "field_of ''key''
            (detectErrorCategory
               [(''to'', JStr ''0xRouter''),
                (''error'', JStr ''ERC20: transfer amount exceeds allowance'')])
           = Inr (JStr ''ALLOWANCE'')"
    by (simp add: example4_category field_of_def get_def)
  moreover have "field_of ''category''
            (detectErrorCategory
               [(''to'', JStr ''0xRouter''),
                (''error'', JStr ''ERC20: transfer amount exceeds allowance'')])
           = Inr (JStr ''Allowance Error'')"
    by (simp add: example4_category field_of_def get_def)
  ultimately show ?thesis by blast
qed

lemma no_text_category:
  "detectErrorCategory [(''contractAddress'', JNum 0), (''to'', JStr ''0xRouter''), (''status'', JStr [])]
     = Inr UNKNOWN"
  by code_simp

theorem contractAddress_fallback_witness:
  "field_of ''contractAddress''
     (buildTransactionContext ''2026-11-03T00:00:00.000Z''
        [(''contractAddress'', JNum 0), (''to'', JStr ''0xRouter''), (''status'', JStr [])])
   = Inr (JStr ''0xRouter'')"
proof -
  obtain ctx where h: "buildTransactionContext ''2026-11-03T00:00:00.000Z''
        [(''contractAddress'', JNum 0), (''to'', JStr ''0xRouter''), (''status'', JStr [])] = Inr ctx"
    using build_succeeds [OF no_text_category] by blast
  from contractAddress_fallback [OF h] have "get ctx ''contractAddress'' = JStr ''0xRouter''"
    by (simp add: get_def)
  with h show ?thesis by (simp add: field_of_def)
qed

text \<open>
  Claim C10. Where the \<open>status\<close>, \<open>value\<close> or \<open>network\<close> field of the input is
  absent or falsy, the result has status \<open>failed\<close>, value \<open>0\<close> and network
  \<open>Ethereum Mainnet\<close> respectively.
\<close>

theorem undocumented_defaults:
  assumes "buildTransactionContext now txData = Inr ctx"
  shows "(\<not> truthy (get txData ''status'') \<longrightarrow> get ctx ''status'' = JStr ''failed'')
       \<and> (\<not> truthy (get txData ''value'') \<longrightarrow> get ctx ''value'' = JStr ''0'')
       \<and> (\<not> truthy (get txData ''network'') \<longrightarrow> get ctx ''network'' = JStr ''Ethereum Mainnet'')"
  using assms
  by (auto simp: buildTransactionContext_def get_def or_else_def split: sum.splits)

theorem undocumented_defaults_witness:
  "field_of ''status''
     (buildTransactionContext ''2026-11-03T00:00:00.000Z''
        [(''contractAddress'', JNum 0), (''to'', JStr ''0xRouter''), (''status'', JStr [])])
     = Inr (JStr ''failed'')
   \<and> field_of ''value''
     (buildTransactionContext ''2026-11-03T00:00:00.000Z''
        [(''contractAddress'', JNum 0), (''to'', JStr ''0xRouter''), (''status'', JStr [])])
     = Inr (JStr ''0'')
   \<and> field_of ''network''
     (buildTransactionContext ''2026-11-03T00:00:00.000Z''
        [(''contractAddress'', JNum 0), (''to'', JStr ''0xRouter''), (''status'', JStr [])])
     = Inr (JStr ''Ethereum Mainnet'')"
proof -
  obtain ctx where h: "buildTransactionContext ''2026-11-03T00:00:00.000Z''
        [(''contractAddress'', JNum 0), (''to'', JStr ''0xRouter''), (''status'', JStr [])] = Inr ctx"
    using build_succeeds [OF no_text_category] by blast
  from undocumented_defaults [OF h]
  have "get ctx ''status'' = JStr ''failed'' \<and> get ctx ''value'' = JStr ''0''
      \<and> get ctx ''network'' = JStr ''Ethereum Mainnet''"
    by (simp add: get_def)
  with h show ?thesis by (simp add: field_of_def)
qed

lemma or_else_defined: "d \<noteq> JUndefined \<Longrightarrow> or_else v d \<noteq> JUndefined"
  by (cases v) (simp_all add: or_else_def)

lemma context_fields_defined:
  assumes "buildTransactionContext now txData = Inr ctx"
  shows "list_all (\<lambda>k. get ctx k \<noteq> JUndefined) canonical_fields"
proof -
  from assms obtain cat where "detectErrorCategory txData = Inr cat"
    by (auto simp: buildTransactionContext_def split: sum.splits)
  with assms show ?thesis
    by (auto simp: buildTransactionContext_def canonical_fields_def get_def or_else_defined)
qed

lemma empty_record_category: "detectErrorCategory [] = Inr UNKNOWN"
  by code_simp

text \<open>
  Claim C3, as amended. For every object-shaped input record whose error, revert-reason
  and error-message fields convert to strings (every primitive value does),
  \<open>buildTransactionContext\<close> succeeds and returns a record in which no canonical field is
  absent or undefined. For the empty object the result has hash \<open>N/A\<close>, error
  \<open>No error message\<close>, an \<open>errorCategory\<close> with key \<open>UNKNOWN\<close>, and the empty
  object as \<open>additionalContext\<close>.
\<close>

theorem buildTransactionContext_total:
  assumes "list_all (\<lambda>k. convertible (get txData k)) text_fields"
  shows "(\<exists>ctx. buildTransactionContext now txData = Inr ctx
            \<and> (\<forall>k\<in>set canonical_fields. get ctx k \<noteq> JUndefined))
       \<and> field_of ''hash'' (buildTransactionContext now []) = Inr (JStr ''N/A'')
       \<and> field_of ''error'' (buildTransactionContext now []) = Inr (JStr ''No error message'')
       \<and> field_of ''errorCategory'' (buildTransactionContext now [])
           = Inr (JObj [(''key'', JStr ''UNKNOWN''), (''category'', JStr ''Unknown Error''),
                        (''patterns'', JArr [])])
       \<and> field_of ''additionalContext'' (buildTransactionContext now []) = Inr (JObj [])"
proof -
  from searchStr_total [OF assms] obtain s where "searchStr txData = Inr s" by blast
  then have "\<exists>cat. detectErrorCategory txData = Inr cat"
    by (simp add: detectErrorCategory_def)
  then obtain ctx where ctx: "buildTransactionContext now txData = Inr ctx"
    using build_succeeds by blast
  from context_fields_defined [OF ctx]
  have "\<forall>k\<in>set canonical_fields. get ctx k \<noteq> JUndefined"
    by (simp add: list_all_iff)
  with ctx have "\<exists>ctx. buildTransactionContext now txData = Inr ctx
            \<and> (\<forall>k\<in>set canonical_fields. get ctx k \<noteq> JUndefined)"
    by blast
  moreover have "field_of ''hash'' (buildTransactionContext now []) = Inr (JStr ''N/A'')"
    "field_of ''error'' (buildTransactionContext now []) = Inr (JStr ''No error message'')"
    "field_of ''errorCategory'' (buildTransactionContext now [])
           = Inr (JObj [(''key'', JStr ''UNKNOWN''), (''category'', JStr ''Unknown Error''),
                        (''patterns'', JArr [])])"
    "field_of ''additionalContext'' (buildTransactionContext now []) = Inr (JObj [])"
    by (simp_all add: buildTransactionContext_def empty_record_category field_of_def get_def
        or_else_def UNKNOWN_def)
  ultimately show ?thesis by blast
qed

theorem buildTransactionContext_total_witness:
  "\<exists>ctx. buildTransactionContext ''2026-11-03T00:00:00.000Z''
            [(''error'', JArr [JStr ''paused'']), (''hash'', JNull)] = Inr ctx
       \<and> list_all (\<lambda>k. get ctx k \<noteq> JUndefined) canonical_fields"
proof -
  have h: "list_all (\<lambda>k. convertible (get [(''error'', JArr [JStr ''paused'']),
     (''hash'', JNull)] k)) text_fields"
    by code_simp
  from buildTransactionContext_total [OF h, of "''2026-11-03T00:00:00.000Z''"]
  show ?thesis by (simp add: list_all_iff)
qed

text \<open>
  The claim C3 as worded fails on an object-shaped record whose error field cannot be
  converted to a string: the classification throws, and so does the normalization.
\<close>

theorem buildTransactionContext_counterexample:
  "buildTransactionContext ''2026-11-03T00:00:00.000Z''
     [(''error'', JObj [(''toString'', JNull)])] = Inl TypeError"
  by code_simp

section \<open>Normalizing a normalized record\<close>

lemma clear_error_default:
  "list_all (clear_before ''no error message'' (CHR '' '')) lowered_patterns"
  by code_simp

lemma clear_revert_default:
  "list_all (clear_after (CHR '' '') ''no revert reason '') lowered_patterns"
  by code_simp

lemma clear_space:
  "list_all (clear_after (CHR '' '') '' '') lowered_patterns"
  by code_simp

lemma both_defaults:
  "first_match ''no error message no revert reason '' ERROR_PATTERNS
     = first_match ''  '' ERROR_PATTERNS"
  by code_simp

lemma sublist_past_prefix:
  assumes "clear_before pre c p"
  shows "sublist p (pre @ c # t) \<longleftrightarrow> sublist p (c # t)"
proof
  assume "sublist p (c # t)"
  then show "sublist p (pre @ c # t)"
    by (metis sublist_order.order.trans sublist_append_leftI)
next
  assume "sublist p (pre @ c # t)"
  then consider "sublist p pre" | "sublist p (c # t)"
    | p1 p2 where "p = p1 @ p2" "suffix p1 pre" "prefix p2 (c # t)"
    using sublist_append [of p pre "c # t"] by blast
  then show "sublist p (c # t)"
  proof cases
    case 1
    with assms show ?thesis by (simp add: clear_before_def)
  next
    case 2
    then show ?thesis .
  next
    case 3
    show ?thesis
    proof (cases p2)
      case Nil
      with 3 have "sublist p pre" by (simp add: suffix_imp_sublist)
      with assms show ?thesis by (simp add: clear_before_def)
    next
      case (Cons x xs)
      with 3 have x: "x = c" by simp
      from 3 Cons have k: "length p1 < length p" "take (length p1) p = p1" "p ! length p1 = x"
        by simp_all
      from assms k(1) have "\<not> (suffix (take (length p1) p) pre \<and> p ! length p1 = c)"
        by (simp add: clear_before_def list_all_iff)
      with 3 k x show ?thesis by simp
    qed
  qed
qed

lemma sublist_before_suffix:
  assumes "clear_after c post p"
  shows "sublist p (t @ c # post) \<longleftrightarrow> sublist p (t @ [c])"
proof
  assume "sublist p (t @ [c])"
  then have "sublist p ((t @ [c]) @ post)"
    by (metis sublist_order.order.trans sublist_append_rightI)
  then show "sublist p (t @ c # post)" by simp
next
  assume "sublist p (t @ c # post)"
  then have "sublist p ((t @ [c]) @ post)" by simp
  then consider "sublist p (t @ [c])" | "sublist p post"
    | p1 p2 where "p = p1 @ p2" "suffix p1 (t @ [c])" "prefix p2 post"
    using sublist_append [of p "t @ [c]" post] by blast
  then show "sublist p (t @ [c])"
  proof cases
    case 1
    then show ?thesis .
  next
    case 2
    with assms show ?thesis by (simp add: clear_after_def)
  next
    case 3
    show ?thesis
    proof (cases "p1 = [] \<or> p2 = []")
      case True
      then show ?thesis
      proof
        assume "p1 = []"
        with 3 have "sublist p post" by simp
        with assms show ?thesis by (simp add: clear_after_def)
      next
        assume "p2 = []"
        with 3 show ?thesis by (simp add: suffix_imp_sublist)
      qed
    next
      case False
      then have ne: "p1 \<noteq> []" "p2 \<noteq> []" by simp_all
      from 3(2) ne(1) have "last p1 = c"
        by (metis last_appendR last_snoc snoc_eq_iff_butlast suffix_def)
      with 3(1) ne have k: "1 \<le> length p1" "length p1 < length p"
        "p ! (length p1 - 1) = c" "drop (length p1) p = p2"
        by (simp_all add: Suc_le_eq nth_append last_conv_nth)
      from assms k(1,2)
      have "\<not> (p ! (length p1 - 1) = c \<and> prefix (drop (length p1) p) post)"
        by (simp add: clear_after_def list_all_iff)
      with 3 k show ?thesis by simp
    qed
  qed
qed


lemma lowered_pattern_mem:
  "e \<in> set ERROR_PATTERNS \<Longrightarrow> p \<in> set (patterns (snd e)) \<Longrightarrow>
   toLowerCase p \<in> set lowered_patterns"
  by (auto simp: lowered_patterns_def)

lemma first_match_cong:
  "\<forall>e\<in>set es. matches s (snd e) = matches s' (snd e) \<Longrightarrow>
   first_match s es = first_match s' es"
  by (induction es) auto

lemma matches_error_default:
  assumes "e \<in> set ERROR_PATTERNS"
  shows "matches (''no error message'' @ CHR '' '' # t) (snd e) = matches (CHR '' '' # t) (snd e)"
proof -
  have "sublist (toLowerCase p) (''no error message'' @ CHR '' '' # t)
      \<longleftrightarrow> sublist (toLowerCase p) (CHR '' '' # t)"
    if "p \<in> set (patterns (snd e))" for p
  proof -
    from lowered_pattern_mem [OF assms that] clear_error_default
    have "clear_before ''no error message'' (CHR '' '') (toLowerCase p)"
      by (simp add: list_all_iff)
    then show ?thesis by (rule sublist_past_prefix)
  qed
  then show ?thesis unfolding matches_iff by blast
qed

lemma matches_revert_default:
  assumes "e \<in> set ERROR_PATTERNS"
  shows "matches (t @ CHR '' '' # ''no revert reason '') (snd e)
       = matches (t @ CHR '' '' # '' '') (snd e)"
proof -
  have "sublist (toLowerCase p) (t @ CHR '' '' # ''no revert reason '')
      \<longleftrightarrow> sublist (toLowerCase p) (t @ CHR '' '' # '' '')"
    if "p \<in> set (patterns (snd e))" for p
  proof -
    from lowered_pattern_mem [OF assms that] clear_revert_default clear_space
    have "clear_after (CHR '' '') ''no revert reason '' (toLowerCase p)"
      "clear_after (CHR '' '') '' '' (toLowerCase p)"
      by (simp_all add: list_all_iff)
    then show ?thesis by (simp only: sublist_before_suffix)
  qed
  then show ?thesis unfolding matches_iff by blast
qed

lemma lower_append: "toLowerCase (x @ y) = toLowerCase x @ toLowerCase y"
  by (simp add: toLowerCase_def)

lemma lower_defaults:
  "toLowerCase ''No error message'' = ''no error message''"
  "toLowerCase ''No revert reason'' = ''no revert reason''"
  "toLowerCase '' '' = '' ''"
  "toLowerCase [] = []"
  by code_simp+

lemma first_match_defaults:
  "first_match (toLowerCase ((if ta then a else ''No error message'') @ '' '' @
                             (if tb then b else ''No revert reason'') @ '' '' @ []))
      ERROR_PATTERNS
   = first_match (toLowerCase ((if ta then a else []) @ '' '' @ (if tb then b else []) @ '' '' @ []))
      ERROR_PATTERNS"
proof (cases ta; cases tb)
  assume "ta" "tb"
  then show ?thesis by simp
next
  assume t: "ta" "\<not> tb"
  have "toLowerCase (a @ '' '' @ ''No revert reason'' @ '' '' @ [])
      = toLowerCase a @ CHR '' '' # ''no revert reason ''"
    "toLowerCase (a @ '' '' @ [] @ '' '' @ []) = toLowerCase a @ CHR '' '' # '' ''"
    unfolding lower_append lower_defaults by simp_all
  moreover have "first_match (toLowerCase a @ CHR '' '' # ''no revert reason '') ERROR_PATTERNS
      = first_match (toLowerCase a @ CHR '' '' # '' '') ERROR_PATTERNS"
    by (intro first_match_cong ballI matches_revert_default)
  ultimately show ?thesis using t by (simp only: if_True if_False)
next
  assume t: "\<not> ta" "tb"
  have "toLowerCase (''No error message'' @ '' '' @ b @ '' '' @ [])
      = ''no error message'' @ CHR '' '' # (toLowerCase b @ '' '')"
    "toLowerCase ([] @ '' '' @ b @ '' '' @ []) = CHR '' '' # (toLowerCase b @ '' '')"
    unfolding lower_append lower_defaults by simp_all
  moreover have "first_match (''no error message'' @ CHR '' '' # (toLowerCase b @ '' ''))
        ERROR_PATTERNS
      = first_match (CHR '' '' # (toLowerCase b @ '' '')) ERROR_PATTERNS"
    by (intro first_match_cong ballI matches_error_default)
  ultimately show ?thesis using t by (simp only: if_True if_False)
next
  assume t: "\<not> ta" "\<not> tb"
  have "toLowerCase (''No error message'' @ '' '' @ ''No revert reason'' @ '' '' @ [])
      = ''no error message no revert reason ''"
    "toLowerCase ([] @ '' '' @ [] @ '' '' @ []) = ''  ''"
    unfolding lower_append lower_defaults by simp_all
  with both_defaults show ?thesis using t by (simp only: if_True if_False)
qed

lemma or_else_again: "truthy d \<Longrightarrow> or_else (or_else v d) d' = or_else v d"
  by (simp add: or_else_def)

lemma or_else_truthy: "truthy d \<Longrightarrow> truthy (or_else v d)"
  by (simp add: or_else_def)

lemma context_shape:
  assumes "buildTransactionContext now txData = Inr ctx"
  shows "\<exists>cat. detectErrorCategory txData = Inr cat \<and> ctx =
         [(''hash'', or_else (get txData ''hash'') (JStr ''N/A'')),
          (''status'', or_else (get txData ''status'') (JStr ''failed'')),
          (''errorCategory'', JObj cat),
          (''gasUsed'', or_else (get txData ''gasUsed'') (JStr ''N/A'')),
          (''gasLimit'', or_else (get txData ''gasLimit'') (JStr ''N/A'')),
          (''gasPrice'', or_else (get txData ''gasPrice'') (JStr ''N/A'')),
          (''from'', or_else (get txData ''from'') (JStr ''N/A'')),
          (''to'', or_else (get txData ''to'') (JStr ''N/A'')),
          (''value'', or_else (get txData ''value'') (JStr ''0'')),
          (''nonce'', or_else (get txData ''nonce'') (JStr ''N/A'')),
          (''error'', or_else (get txData ''error'') (JStr ''No error message'')),
          (''revertReason'', or_else (get txData ''revertReason'') (JStr ''No revert reason'')),
          (''contractAddress'',
             or_else (or_else (get txData ''contractAddress'') (get txData ''to'')) (JStr ''N/A'')),
          (''contractName'', or_else (get txData ''contractName'') (JStr ''Unknown Contract'')),
          (''functionName'', or_else (get txData ''functionName'') (JStr ''Unknown Function'')),
          (''inputData'', or_else (get txData ''inputData'') (JStr ''N/A'')),
          (''network'', or_else (get txData ''network'') (JStr ''Ethereum Mainnet'')),
          (''timestamp'', or_else (get txData ''timestamp'') (JStr now)),
          (''additionalContext'', or_else (get txData ''additionalContext'') (JObj []))]"
  using assms by (auto simp: buildTransactionContext_def split: sum.splits)

lemma context_text_fields:
  assumes "buildTransactionContext now txData = Inr ctx"
  shows "get ctx ''error'' = or_else (get txData ''error'') (JStr ''No error message'')"
    and "get ctx ''revertReason'' = or_else (get txData ''revertReason'') (JStr ''No revert reason'')"
    and "get ctx ''errorMessage'' = JUndefined"
  using context_shape [OF assms] by (auto simp: get_def)

lemma field_text_default:
  assumes "field_text v = Inr a" and "d \<noteq> []"
  shows "field_text (or_else v (JStr d)) = Inr (if truthy v then a else d)"
  using assms by (auto simp: field_text_def or_else_def split: if_splits)

lemma field_text_truthy: "field_text v = Inr a \<Longrightarrow> \<not> truthy v \<Longrightarrow> a = []"
  by (simp add: field_text_def)

lemma reclassify:
  assumes ctx: "buildTransactionContext now txData = Inr ctx"
    and m: "\<not> truthy (get txData ''errorMessage'')"
  shows "detectErrorCategory ctx = detectErrorCategory txData"
proof -
  from context_shape [OF ctx] obtain cat where "detectErrorCategory txData = Inr cat" by blast
  then obtain s where "searchStr txData = Inr s"
    by (auto simp: detectErrorCategory_def split: sum.splits)
  from searchStr_total [OF searchStr_Inr_convertible [OF this]] obtain a b c where
    abc: "field_text (get txData ''error'') = Inr a"
      "field_text (get txData ''revertReason'') = Inr b"
      "field_text (get txData ''errorMessage'') = Inr c"
      "searchStr txData = Inr (toLowerCase (a @ '' '' @ b @ '' '' @ c))"
    by blast
  let ?ta = "truthy (get txData ''error'')" and ?tb = "truthy (get txData ''revertReason'')"
  from m abc(3) have c: "c = []" by (rule field_text_truthy [rotated])
  have a: "a = (if ?ta then a else [])" and b: "b = (if ?tb then b else [])"
    using abc(1,2) field_text_truthy by auto
  have s1: "searchStr txData
      = Inr (toLowerCase ((if ?ta then a else []) @ '' '' @ (if ?tb then b else []) @ '' '' @ []))"
    using abc(4) c a b by simp
  have "field_text (get ctx ''error'') = Inr (if ?ta then a else ''No error message'')"
    "field_text (get ctx ''revertReason'') = Inr (if ?tb then b else ''No revert reason'')"
    "field_text (get ctx ''errorMessage'') = Inr []"
    using abc(1,2) by (simp_all add: context_text_fields [OF ctx] field_text_default)
      (simp add: field_text_def)
  then have s2: "searchStr ctx
      = Inr (toLowerCase ((if ?ta then a else ''No error message'') @ '' '' @
                          (if ?tb then b else ''No revert reason'') @ '' '' @ []))"
    by (simp add: searchStr_field_text)
  show ?thesis
    unfolding detectErrorCategory_def s1 s2 by (simp only: first_match_defaults sum.case)
qed


lemma or_else_left: "truthy a \<Longrightarrow> or_else a b = a"
  by (simp add: or_else_def)

lemma context_fields:
  assumes "buildTransactionContext now txData = Inr ctx"
  shows "get ctx ''hash'' = or_else (get txData ''hash'') (JStr ''N/A'')"
    and "get ctx ''status'' = or_else (get txData ''status'') (JStr ''failed'')"
    and "get ctx ''gasUsed'' = or_else (get txData ''gasUsed'') (JStr ''N/A'')"
    and "get ctx ''gasLimit'' = or_else (get txData ''gasLimit'') (JStr ''N/A'')"
    and "get ctx ''gasPrice'' = or_else (get txData ''gasPrice'') (JStr ''N/A'')"
    and "get ctx ''from'' = or_else (get txData ''from'') (JStr ''N/A'')"
    and "get ctx ''to'' = or_else (get txData ''to'') (JStr ''N/A'')"
    and "get ctx ''value'' = or_else (get txData ''value'') (JStr ''0'')"
    and "get ctx ''nonce'' = or_else (get txData ''nonce'') (JStr ''N/A'')"
    and "get ctx ''contractAddress'' =
           or_else (or_else (get txData ''contractAddress'') (get txData ''to'')) (JStr ''N/A'')"
    and "get ctx ''contractName'' = or_else (get txData ''contractName'') (JStr ''Unknown Contract'')"
    and "get ctx ''functionName'' = or_else (get txData ''functionName'') (JStr ''Unknown Function'')"
    and "get ctx ''inputData'' = or_else (get txData ''inputData'') (JStr ''N/A'')"
    and "get ctx ''network'' = or_else (get txData ''network'') (JStr ''Ethereum Mainnet'')"
    and "get ctx ''timestamp'' = or_else (get txData ''timestamp'') (JStr now)"
    and "get ctx ''additionalContext'' = or_else (get txData ''additionalContext'') (JObj [])"
  using context_shape [OF assms] by (auto simp: get_def)

lemma context_category:
  assumes "buildTransactionContext now txData = Inr ctx"
  shows "detectErrorCategory txData = Inr cat \<longleftrightarrow> get ctx ''errorCategory'' = JObj cat"
  using context_shape [OF assms] by (auto simp: get_def)

lemma renormalize_succeeds:
  assumes ctx: "buildTransactionContext now txData = Inr ctx"
  shows "\<exists>ctx'. buildTransactionContext now' ctx = Inr ctx'"
proof -
  from context_shape [OF ctx] obtain cat where "detectErrorCategory txData = Inr cat" by blast
  then obtain s where "searchStr txData = Inr s"
    by (auto simp: detectErrorCategory_def split: sum.splits)
  from searchStr_total [OF searchStr_Inr_convertible [OF this]] obtain a b where
    ab: "field_text (get txData ''error'') = Inr a"
      "field_text (get txData ''revertReason'') = Inr b"
    by blast
  have "field_text (get ctx ''error'') = Inr (if truthy (get txData ''error'') then a
            else ''No error message'')"
    "field_text (get ctx ''revertReason'') = Inr (if truthy (get txData ''revertReason'') then b
            else ''No revert reason'')"
    "field_text (get ctx ''errorMessage'') = Inr []"
    using ab by (simp_all add: context_text_fields [OF ctx] field_text_default)
      (simp add: field_text_def)
  then have "\<exists>s. searchStr ctx = Inr s"
    by (simp add: searchStr_field_text)
  then have "\<exists>cat. detectErrorCategory ctx = Inr cat"
    by (auto simp: detectErrorCategory_def)
  then show ?thesis using build_succeeds by blast
qed

text \<open>
  Claim C6, as amended. \<open>detectErrorCategory\<close> is a function of the record, so two calls on
  the same input return equal results. \<open>buildTransactionContext\<close> applied to its own output
  succeeds and agrees with the single application on every canonical field other than
  \<open>timestamp\<close> and \<open>errorCategory\<close>; on \<open>timestamp\<close> as well when the input has a
  timestamp or the clock's string is not empty; and on \<open>errorCategory\<close> as well when the
  input has no truthy \<open>errorMessage\<close> (that field is read by the classification but not
  carried into the output).
\<close>

theorem normalize_twice_agrees:
  assumes "buildTransactionContext now txData = Inr ctx"
  shows "\<exists>ctx'. buildTransactionContext now' ctx = Inr ctx'
       \<and> (\<forall>k\<in>set canonical_fields. k \<noteq> ''errorCategory'' \<longrightarrow> k \<noteq> ''timestamp'' \<longrightarrow>
             get ctx' k = get ctx k)
       \<and> (truthy (get txData ''timestamp'') \<or> now \<noteq> [] \<longrightarrow>
             get ctx' ''timestamp'' = get ctx ''timestamp'')
       \<and> (\<not> truthy (get txData ''errorMessage'') \<longrightarrow>
             get ctx' ''errorCategory'' = get ctx ''errorCategory'')"
proof -
  from renormalize_succeeds [OF assms] obtain ctx'
    where ctx': "buildTransactionContext now' ctx = Inr ctx'" by blast
  note f = context_fields [OF assms] and f' = context_fields [OF ctx']
  have "\<forall>k\<in>set canonical_fields. k \<noteq> ''errorCategory'' \<longrightarrow> k \<noteq> ''timestamp'' \<longrightarrow>
      get ctx' k = get ctx k"
    unfolding canonical_fields_def
    by (simp add: f' context_text_fields [OF ctx'] or_else_left)
      (simp add: f context_text_fields [OF assms] or_else_truthy or_else_left)
  moreover have "truthy (get txData ''timestamp'') \<or> now \<noteq> [] \<longrightarrow>
      get ctx' ''timestamp'' = get ctx ''timestamp''"
    by (auto simp: f f' or_else_def)
  moreover have "get ctx' ''errorCategory'' = get ctx ''errorCategory''"
    if "\<not> truthy (get txData ''errorMessage'')"
  proof -
    from context_shape [OF assms] obtain cat where cat: "detectErrorCategory txData = Inr cat"
      by blast
    with reclassify [OF assms that] have "detectErrorCategory ctx = Inr cat" by simp
    then have "get ctx' ''errorCategory'' = JObj cat"
      using context_category [OF ctx'] by blast
    moreover from cat have "get ctx ''errorCategory'' = JObj cat"
      using context_category [OF assms] by blast
    ultimately show ?thesis by simp
  qed
  ultimately show ?thesis using ctx' by blast
qed

lemma example1_category:
  "detectErrorCategory [(''error'', JStr ''out of gas''), (''gasLimit'', JStr ''21000'')]
     = Inr [(''key'', JStr ''OUT_OF_GAS''),
            (''patterns'', JArr [JStr ''out of gas'', JStr ''gas required exceeds allowance'',
                                 JStr ''intrinsic gas too low'']),
            (''category'', JStr ''Gas Error'')]"
  by code_simp

theorem normalize_twice_agrees_witness:
  "field_of ''errorCategory''
     (normalize_twice ''2026-11-03T00:00:00.000Z'' ''2026-11-04T00:00:00.000Z''
        [(''error'', JStr ''out of gas''), (''gasLimit'', JStr ''21000'')])
   = field_of ''errorCategory''
     (buildTransactionContext ''2026-11-03T00:00:00.000Z''
        [(''error'', JStr ''out of gas''), (''gasLimit'', JStr ''21000'')])
   \<and> field_of ''timestamp''
     (normalize_twice ''2026-11-03T00:00:00.000Z'' ''2026-11-04T00:00:00.000Z''
        [(''error'', JStr ''out of gas''), (''gasLimit'', JStr ''21000'')])
   = Inr (JStr ''2026-11-03T00:00:00.000Z'')
   \<and> field_of ''revertReason''
     (normalize_twice ''2026-11-03T00:00:00.000Z'' ''2026-11-04T00:00:00.000Z''
        [(''error'', JStr ''out of gas''), (''gasLimit'', JStr ''21000'')])
   = Inr (JStr ''No revert reason'')"
proof -
  let ?x = "[(''error'', JStr ''out of gas''), (''gasLimit'', JStr ''21000'')]"
  obtain ctx where h: "buildTransactionContext ''2026-11-03T00:00:00.000Z'' ?x = Inr ctx"
    using build_succeeds [OF example1_category] by blast
  have m: "\<not> truthy (get ?x ''errorMessage'')" and n: "''2026-11-03T00:00:00.000Z'' \<noteq> []"
    and r: "''revertReason'' \<in> set canonical_fields"
    by (simp_all add: get_def canonical_fields_def)
  from normalize_twice_agrees [OF h, of "''2026-11-04T00:00:00.000Z''"]
  obtain ctx' where c: "buildTransactionContext ''2026-11-04T00:00:00.000Z'' ctx = Inr ctx'"
    and c1: "\<forall>k\<in>set canonical_fields. k \<noteq> ''errorCategory'' \<longrightarrow> k \<noteq> ''timestamp'' \<longrightarrow>
               get ctx' k = get ctx k"
    and c2: "truthy (get ?x ''timestamp'') \<or> ''2026-11-03T00:00:00.000Z'' \<noteq> [] \<longrightarrow>
               get ctx' ''timestamp'' = get ctx ''timestamp''"
    and c3: "\<not> truthy (get ?x ''errorMessage'') \<longrightarrow>
               get ctx' ''errorCategory'' = get ctx ''errorCategory''"
    by blast
  from c3 m have e: "get ctx' ''errorCategory'' = get ctx ''errorCategory''" by blast
  from c2 n have t: "get ctx' ''timestamp'' = get ctx ''timestamp''" by blast
  from c1 r have v: "get ctx' ''revertReason'' = get ctx ''revertReason''" by simp
  have gx: "get ?x ''timestamp'' = JUndefined" "get ?x ''revertReason'' = JUndefined"
    by (simp_all add: get_def)
  have "get ctx ''timestamp'' = JStr ''2026-11-03T00:00:00.000Z''"
    "get ctx ''revertReason'' = JStr ''No revert reason''"
    by (simp_all add: context_fields [OF h] context_text_fields [OF h] gx or_else_def)
  with h c e t v show ?thesis by (simp add: normalize_twice_def field_of_def)
qed

text \<open>
  The claim C6 as worded fails on the \<open>errorCategory\<close> field: a record whose only error
  text is in \<open>errorMessage\<close> is classified as OUT_OF_GAS, the normalized record has no
  \<open>errorMessage\<close>, and normalizing it again classifies it as UNKNOWN.
\<close>

theorem normalize_twice_counterexample:
  "field_of ''errorCategory''
     (buildTransactionContext ''2026-11-03T00:00:00.000Z'' [(''errorMessage'', JStr ''out of gas'')])
     = Inr (JObj [(''key'', JStr ''OUT_OF_GAS''),
            (''patterns'', JArr [JStr ''out of gas'', JStr ''gas required exceeds allowance'',
                                 JStr ''intrinsic gas too low'']),
            (''category'', JStr ''Gas Error'')])
   \<and> field_of ''errorCategory''
     (normalize_twice ''2026-11-03T00:00:00.000Z'' ''2026-11-03T00:00:00.000Z''
        [(''errorMessage'', JStr ''out of gas'')])
     = Inr (JObj [(''key'', JStr ''UNKNOWN''), (''category'', JStr ''Unknown Error''),
                  (''patterns'', JArr [])])"
  by code_simp

end
